theory Spec2Isabelle
  imports Main
begin

section \<open>JavaScript values\<close>

text \<open>
  An optional string field of a request body in a JavaScript condition: the absent field and
  the empty string are falsy, every other string is truthy.
\<close>

definition truthy :: "string option \<Rightarrow> bool" where
  "truthy v = (case v of None \<Rightarrow> False | Some s \<Rightarrow> s \<noteq> [])"

text \<open>
  JavaScript numbers are IEEE-754 doubles. The model does not fix their arithmetic: the doubles
  other than \<open>NaN\<close> are a type parameter \<open>'n\<close>, linearly ordered and with a zero (the two
  zeros of a double compare equal), and the conversions between strings and numbers are
  parameters of the functions that call them: \<^verbatim>\<open>parseFloat(s)\<close>, the text \<^verbatim>\<open>String(n)\<close> of a
  number, and the conversion \<^verbatim>\<open>Number(s)\<close> that an arithmetic comparison applies to a string
  operand. A comparison with \<open>NaN\<close> is false.
\<close>

datatype 'n js_number = NaN | Num 'n

record 'n js_numbers =
  parseFloat :: "string \<Rightarrow> 'n js_number"
  numberToString :: "'n \<Rightarrow> string"
  toNumber :: "string \<Rightarrow> 'n js_number"

fun js_lt :: "'n::linorder js_number \<Rightarrow> 'n js_number \<Rightarrow> bool" where
  "js_lt (Num a) (Num b) = (a < b)"
| "js_lt _ _ = False"

fun js_ge :: "'n::linorder js_number \<Rightarrow> 'n js_number \<Rightarrow> bool" where
  "js_ge (Num a) (Num b) = (b \<le> a)"
| "js_ge _ _ = False"

text \<open>
  A numeric field as a JSON body carries it, \<open>minAmount\<close> or \<open>expiresIn\<close>: a number or a
  string. The validator \<^verbatim>\<open>isNumeric()\<close> of the API routes lets both through unchanged.
\<close>

datatype 'n js_amount = JNumber 'n | JString string

fun amount_truthy :: "'n::zero js_amount \<Rightarrow> bool" where
  "amount_truthy (JNumber n) = (n \<noteq> 0)"
| "amount_truthy (JString s) = (s \<noteq> [])"

text \<open>
  The operators on such a value. \<^verbatim>\<open>n + v\<close> adds two numbers and, when \<open>v\<close> is a string,
  concatenates the text of \<open>n\<close> with it. \<^verbatim>\<open>v > n\<close> and \<^verbatim>\<open>x >= v\<close> compare numbers, a
  string operand converted with \<^verbatim>\<open>Number\<close>.
\<close>

fun js_add :: "'n::plus js_numbers \<Rightarrow> 'n \<Rightarrow> 'n js_amount \<Rightarrow> 'n js_amount" where
  "js_add N n (JNumber v) = JNumber (n + v)"
| "js_add N n (JString s) = JString (numberToString N n @ s)"

fun amount_number :: "'n js_numbers \<Rightarrow> 'n js_amount \<Rightarrow> 'n js_number" where
  "amount_number N (JNumber v) = Num v"
| "amount_number N (JString s) = toNumber N s"

definition js_gt :: "'n::linorder js_numbers \<Rightarrow> 'n js_amount \<Rightarrow> 'n \<Rightarrow> bool" where
  "js_gt N v n = js_lt (Num n) (amount_number N v)"

text \<open>\<^verbatim>\<open>String(v)\<close>, which \<^verbatim>\<open>parseFloat\<close> and a template literal apply to their argument.\<close>

fun amount_string :: "('n \<Rightarrow> string) \<Rightarrow> 'n js_amount \<Rightarrow> string" where
  "amount_string text_of (JNumber n) = text_of n"
| "amount_string text_of (JString s) = s"

text \<open>
  \<^verbatim>\<open>new Date(ms).toISOString()\<close> throws a RangeError outside the range of a Date, 8.64e15
  milliseconds either side of the epoch; inside it the text is given by the parameter
  \<open>isoText\<close>.
\<close>

definition toISOString :: "(int \<Rightarrow> string) \<Rightarrow> int \<Rightarrow> string option" where
  "toISOString isoText ms = (if \<bar>ms\<bar> \<le> 8640000000000000 then Some (isoText ms) else None)"

section \<open>Consent store (src/api/silobridge-api.ts)\<close>

text \<open>
  The consent store is the module-level \<^verbatim>\<open>Map<string, ConsentGrant[]>\<close> keyed by user id.
  Times are milliseconds since the epoch, as \<^verbatim>\<open>Date.now()\<close> returns them; every function that
  reads the clock takes the reading as its argument \<open>now\<close>. The bodies of the two consent
  handlers are modelled as state transformers on the store. The express-validator chain in
  front of a handler only rejects requests and changes no value: \<open>expiresIn\<close> reaches the
  handler as the JSON number or the numeric string the body holds, and \<open>expiresAt\<close> is
  whatever \<^verbatim>\<open>Date.now() + expiresIn\<close> evaluates to.
\<close>

record 'n ConsentGrant =
  userId :: string
  grantedTo :: string
  scopes :: "string list"
  expiresAt :: "'n js_amount"

type_synonym 'n consent_store = "string \<Rightarrow> 'n ConsentGrant list option"

text \<open>\<^verbatim>\<open>consentStore.get(userId) || []\<close>\<close>

definition userConsents :: "'n consent_store \<Rightarrow> string \<Rightarrow> 'n ConsentGrant list" where
  "userConsents store uid = (case store uid of None \<Rightarrow> [] | Some cs \<Rightarrow> cs)"

text \<open>\<^verbatim>\<open>scopes.some(scope => c.scopes.includes(scope))\<close>\<close>

definition overlaps :: "string list \<Rightarrow> 'n ConsentGrant \<Rightarrow> bool" where
  "overlaps scs c = list_ex (\<lambda>scope. scope \<in> set (scopes c)) scs"

text \<open>
  \<^verbatim>\<open>checkConsent(userId, requesterId, scope)\<close>: \<^verbatim>\<open>find\<close> returns the first matching grant or
  \<^verbatim>\<open>undefined\<close>, and \<^verbatim>\<open>!!\<close> maps a grant object to true.
\<close>

definition checkConsent :: "'n::linorder js_numbers \<Rightarrow> 'n consent_store \<Rightarrow> 'n \<Rightarrow> string \<Rightarrow> string \<Rightarrow>
    string \<Rightarrow> bool" where
  "checkConsent N store now uid requesterId scope =
     (case find (\<lambda>consent. grantedTo consent = requesterId \<and> scope \<in> set (scopes consent)
                              \<and> js_gt N (expiresAt consent) now)
                (userConsents store uid) of
        None \<Rightarrow> False
      | Some validConsent \<Rightarrow> True)"

text \<open>
  Handler of \<^verbatim>\<open>POST /api/consent/grant\<close>. \<open>expiresIn\<close> is optional in the body and defaults to
  thirty days.
\<close>

definition consent_grant :: "'n::{linorder,numeral,times} js_numbers \<Rightarrow> 'n consent_store \<Rightarrow> 'n \<Rightarrow> string \<Rightarrow>
    string \<Rightarrow> string list \<Rightarrow> 'n js_amount option \<Rightarrow> 'n consent_store" where
  "consent_grant N store now uid gto scs expiresIn =
     (let ttl = (case expiresIn of None \<Rightarrow> JNumber (30 * 24 * 60 * 60 * 1000) | Some e \<Rightarrow> e);
          consent = \<lparr>userId = uid, grantedTo = gto, scopes = scs, expiresAt = js_add N now ttl\<rparr>;
          filteredConsents =
            filter (\<lambda>c. \<not> (grantedTo c = gto \<and> overlaps scs c)) (userConsents store uid)
      in store(uid \<mapsto> filteredConsents @ [consent]))"


section \<open>Demo verification server (src/demo/verification-server.js)\<close>

text \<open>
  The two mock registries are object literals keyed by string; they are modelled as partial
  maps over their own keys (a lookup under a name that every object inherits, such as
  \<^verbatim>\<open>constructor\<close>, is outside the model). The clock readings taken while one response is built are taken
  to be the same reading \<open>now\<close>, in milliseconds. The token expiry is in seconds and the
  source tests \<^verbatim>\<open>nftData.expiry > (Date.now() / 1000)\<close>; for an integer expiry and every clock
  value a Date can hold this is \<open>expiry * 1000 > now\<close>, which is how the model writes it.
\<close>

record nft_data =
  nft_tokenId :: string
  nft_amount :: string
  nft_asset :: string
  nft_holderAddress :: string
  nft_expiry :: int
  nft_kycCompliant :: bool
  nft_sanctionsCleared :: bool
  nft_custodian :: string
  nft_auditHash :: string
  nft_valid :: bool

record vc_metadata =
  md_amount :: string
  md_currency :: string
  md_tokenId :: string
  md_holderDID :: string

record vc_data =
  vcd_vcURI :: string
  vcd_valid :: bool
  vcd_claims :: "string list"
  vcd_issuedBy :: string
  vcd_expiresAt :: string
  vcd_verifiedAt :: int
  vcd_metadata :: vc_metadata

type_synonym vc_registry = "string \<Rightarrow> vc_data option"
type_synonym nft_registry = "string \<Rightarrow> nft_data option"

record 'n verify_request =
  rq_vcURI :: "string option"
  rq_tokenId :: "string option"
  rq_requiredAsset :: "string option"
  rq_minAmount :: "'n js_amount option"

datatype http_error = HttpError nat string

subsection \<open>POST /api/verify/dual\<close>

record rail_metadata =
  rm_amount :: string
  rm_currency :: string
  rm_tokenId :: string
  rm_holderDID :: "string option"

record rail_result =
  rr_valid :: bool
  rr_method :: string
  rr_claims :: "string list option"
  rr_metadata :: "rail_metadata option"
  rr_reason :: "string option"

record crossValidation =
  bothValid :: bool
  amountMatch :: bool
  currencyMatch :: bool
  tokenIdMatch :: bool

record dual_result =
  dr_valid :: bool
  dr_verificationMethods :: "string list"
  dr_crossValidation :: crossValidation
  dr_vc :: rail_result
  dr_nft :: rail_result
  dr_verifiedAt :: int
  dr_reason :: string

text \<open>The first promise of \<^verbatim>\<open>Promise.all\<close>: the credential rail.\<close>

definition vc_rail :: "vc_registry \<Rightarrow> string \<Rightarrow> rail_result" where
  "vc_rail mockVCRegistry vcURI =
     (case mockVCRegistry vcURI of
        Some vcData \<Rightarrow>
          \<lparr>rr_valid = vcd_valid vcData, rr_method = ''VC'',
           rr_claims = Some (vcd_claims vcData),
           rr_metadata = Some \<lparr>rm_amount = md_amount (vcd_metadata vcData),
                               rm_currency = md_currency (vcd_metadata vcData),
                               rm_tokenId = md_tokenId (vcd_metadata vcData),
                               rm_holderDID = Some (md_holderDID (vcd_metadata vcData))\<rparr>,
           rr_reason = None\<rparr>
      | None \<Rightarrow>
          \<lparr>rr_valid = False, rr_method = ''VC'', rr_claims = None, rr_metadata = None,
           rr_reason = Some ''VC not found''\<rparr>)"

text \<open>The second promise: the token rail.\<close>

definition nft_rail :: "nft_registry \<Rightarrow> int \<Rightarrow> string \<Rightarrow> rail_result" where
  "nft_rail mockNFTRegistry now tokenId =
     (case mockNFTRegistry tokenId of
        Some nftData \<Rightarrow>
          \<lparr>rr_valid = (nft_valid nftData \<and> nft_expiry nftData * 1000 > now), rr_method = ''NFT'',
           rr_claims = Some [''ProofOfFunds''],
           rr_metadata = Some \<lparr>rm_amount = nft_amount nftData, rm_currency = nft_asset nftData,
                               rm_tokenId = nft_tokenId nftData, rm_holderDID = None\<rparr>,
           rr_reason = None\<rparr>
      | None \<Rightarrow>
          \<lparr>rr_valid = False, rr_method = ''NFT'', rr_claims = None, rr_metadata = None,
           rr_reason = Some ''NFT not found''\<rparr>)"

text \<open>
  \<^verbatim>\<open>vcResult.metadata?.amount === nftResult.metadata?.amount\<close>: the optional chain gives
  \<^verbatim>\<open>undefined\<close> for a result without metadata, and strict equality on strings and
  \<^verbatim>\<open>undefined\<close> is equality of the optional values.
\<close>

definition cross_validate :: "rail_result \<Rightarrow> rail_result \<Rightarrow> crossValidation" where
  "cross_validate vcResult nftResult =
     \<lparr>bothValid = (rr_valid vcResult \<and> rr_valid nftResult),
      amountMatch = (map_option rm_amount (rr_metadata vcResult)
                       = map_option rm_amount (rr_metadata nftResult)),
      currencyMatch = (map_option rm_currency (rr_metadata vcResult)
                         = map_option rm_currency (rr_metadata nftResult)),
      tokenIdMatch = (map_option rm_tokenId (rr_metadata vcResult)
                        = map_option rm_tokenId (rr_metadata nftResult))\<rparr>"

definition dual_response :: "rail_result \<Rightarrow> rail_result \<Rightarrow> int \<Rightarrow> dual_result" where
  "dual_response vcResult nftResult now =
     (let cv = cross_validate vcResult nftResult in
      \<lparr>dr_valid = (bothValid cv \<and> amountMatch cv \<and> currencyMatch cv),
       dr_verificationMethods = [''VC'', ''NFT''],
       dr_crossValidation = cv,
       dr_vc = vcResult,
       dr_nft = nftResult,
       dr_verifiedAt = now,
       dr_reason =
         (if bothValid cv
          then (if amountMatch cv \<and> currencyMatch cv
                then ''Dual verification successful with cross-validation''
                else ''Methods valid but claims do not match'')
          else ''One or both verification methods failed'')\<rparr>)"

text \<open>
  The handler. \<^verbatim>\<open>if (!vcURI || !tokenId)\<close> answers 400 before either registry is read;
  \<open>requiredAsset\<close> and \<open>minAmount\<close> are taken from the body and not used.
\<close>

definition verify_dual ::
  "vc_registry \<Rightarrow> nft_registry \<Rightarrow> int \<Rightarrow> 'n verify_request \<Rightarrow> http_error + dual_result" where
  "verify_dual mockVCRegistry mockNFTRegistry now req =
     (case (rq_vcURI req, rq_tokenId req) of
        (Some vcURI, Some tokenId) \<Rightarrow>
          if vcURI = [] \<or> tokenId = []
          then Inl (HttpError 400 ''Both vcURI and tokenId required for dual verification'')
          else Inr (dual_response (vc_rail mockVCRegistry vcURI)
                      (nft_rail mockNFTRegistry now tokenId) now)
      | _ \<Rightarrow> Inl (HttpError 400 ''Both vcURI and tokenId required for dual verification''))"

subsection \<open>POST /api/verify\<close>

record nft_metadata =
  nm_tokenId :: string
  nm_amount :: string
  nm_currency :: string
  nm_holderAddress :: string
  nm_custodian :: string
  nm_kycCompliant :: bool
  nm_sanctionsCleared :: bool

datatype demo_metadata = EmptyMetadata | VCMetadata vc_metadata | NFTMetadata nft_metadata

record verify_result =
  vr_valid :: bool
  vr_reason :: string
  vr_claims :: "string list"
  vr_issuedBy :: "string option"
  vr_expiresAt :: "string option"
  vr_verifiedAt :: int
  vr_metadata :: demo_metadata

text \<open>
  The two statements under the comment \<^verbatim>\<open>// Check required asset and amount\<close>, which both
  branches of the handler run on the result they have built, with the rail's currency and
  amount.
\<close>

definition check_required :: "'n::{linorder,zero} js_numbers \<Rightarrow> 'n verify_request \<Rightarrow> string \<Rightarrow> string \<Rightarrow>
    verify_result \<Rightarrow> verify_result" where
  "check_required N req currency amount result =
     (let result1 =
            (case rq_requiredAsset req of
               Some requiredAsset \<Rightarrow>
                 if requiredAsset \<noteq> [] \<and> currency \<noteq> requiredAsset
                 then result\<lparr>vr_valid := False,
                             vr_reason := ''Asset mismatch: required '' @ requiredAsset
                                            @ '', found '' @ currency\<rparr>
                 else result
             | None \<Rightarrow> result)
      in (case rq_minAmount req of
            Some minAmount \<Rightarrow>
              if amount_truthy minAmount \<and>
                 js_lt (parseFloat N amount)
                       (parseFloat N (amount_string (numberToString N) minAmount))
              then result1\<lparr>vr_valid := False,
                           vr_reason := ''Insufficient amount: required ''
                                          @ amount_string (numberToString N) minAmount
                                          @ '', found '' @ amount\<rparr>
              else result1
          | None \<Rightarrow> result1))"

text \<open>The branch \<^verbatim>\<open>if (vcURI)\<close>.\<close>

definition demo_verify_vc :: "'n::{linorder,zero} js_numbers \<Rightarrow> vc_registry \<Rightarrow> int \<Rightarrow> 'n verify_request \<Rightarrow>
    string \<Rightarrow> verify_result" where
  "demo_verify_vc N mockVCRegistry now req vcURI =
     (case mockVCRegistry vcURI of
        Some vcData \<Rightarrow>
          check_required N req (md_currency (vcd_metadata vcData)) (md_amount (vcd_metadata vcData))
            \<lparr>vr_valid = vcd_valid vcData,
             vr_reason = (if vcd_valid vcData then ''VC verification successful''
                          else ''Invalid VC signature''),
             vr_claims = vcd_claims vcData,
             vr_issuedBy = Some (vcd_issuedBy vcData),
             vr_expiresAt = Some (vcd_expiresAt vcData),
             vr_verifiedAt = vcd_verifiedAt vcData,
             vr_metadata = VCMetadata (vcd_metadata vcData)\<rparr>
      | None \<Rightarrow>
          \<lparr>vr_valid = False, vr_reason = ''VC not found in registry'', vr_claims = [],
           vr_issuedBy = None, vr_expiresAt = None, vr_verifiedAt = now,
           vr_metadata = EmptyMetadata\<rparr>)"

text \<open>
  The branch \<^verbatim>\<open>else if (tokenId)\<close>. A RangeError of \<^verbatim>\<open>toISOString\<close> reaches the handler's
  \<^verbatim>\<open>catch\<close>, which answers 500.
\<close>

definition demo_verify_nft :: "'n::{linorder,zero} js_numbers \<Rightarrow> (int \<Rightarrow> string) \<Rightarrow> nft_registry \<Rightarrow> int \<Rightarrow>
    'n verify_request \<Rightarrow> string \<Rightarrow> http_error + verify_result" where
  "demo_verify_nft N isoText mockNFTRegistry now req tokenId =
     (case mockNFTRegistry tokenId of
        Some nftData \<Rightarrow>
          (case toISOString isoText (nft_expiry nftData * 1000) of
             None \<Rightarrow> Inl (HttpError 500 ''Internal server error'')
           | Some expiresAtText \<Rightarrow>
               Inr (check_required N req (nft_asset nftData) (nft_amount nftData)
                 \<lparr>vr_valid = (nft_valid nftData \<and> nft_expiry nftData * 1000 > now),
                  vr_reason =
                    (if nft_valid nftData
                     then (if nft_expiry nftData * 1000 > now then ''NFT verification successful''
                           else ''Token expired'')
                     else ''Invalid token''),
                  vr_claims = [''ProofOfFunds''],
                  vr_issuedBy = Some ''UPoF V2 System'',
                  vr_expiresAt = Some expiresAtText,
                  vr_verifiedAt = now,
                  vr_metadata = NFTMetadata
                    \<lparr>nm_tokenId = nft_tokenId nftData, nm_amount = nft_amount nftData,
                     nm_currency = nft_asset nftData,
                     nm_holderAddress = nft_holderAddress nftData,
                     nm_custodian = nft_custodian nftData,
                     nm_kycCompliant = nft_kycCompliant nftData,
                     nm_sanctionsCleared = nft_sanctionsCleared nftData\<rparr>\<rparr>))
      | None \<Rightarrow>
          Inr \<lparr>vr_valid = False, vr_reason = ''NFT token not found'', vr_claims = [],
               vr_issuedBy = None, vr_expiresAt = None, vr_verifiedAt = now,
               vr_metadata = EmptyMetadata\<rparr>)"

text \<open>The handler: the credential branch when \<open>vcURI\<close> is truthy, else the token branch when
  \<open>tokenId\<close> is truthy, else the initial result.\<close>

definition demo_verify :: "'n::{linorder,zero} js_numbers \<Rightarrow> (int \<Rightarrow> string) \<Rightarrow> vc_registry \<Rightarrow> nft_registry \<Rightarrow>
    int \<Rightarrow> 'n verify_request \<Rightarrow> http_error + verify_result" where
  "demo_verify N isoText mockVCRegistry mockNFTRegistry now req =
     (let otherwise =
            (case rq_tokenId req of
               Some tokenId \<Rightarrow>
                 if tokenId \<noteq> [] then demo_verify_nft N isoText mockNFTRegistry now req tokenId
                 else Inr \<lparr>vr_valid = False, vr_reason = ''No verification method provided'',
                           vr_claims = [], vr_issuedBy = None, vr_expiresAt = None,
                           vr_verifiedAt = now, vr_metadata = EmptyMetadata\<rparr>
             | None \<Rightarrow>
                 Inr \<lparr>vr_valid = False, vr_reason = ''No verification method provided'',
                      vr_claims = [], vr_issuedBy = None, vr_expiresAt = None,
                      vr_verifiedAt = now, vr_metadata = EmptyMetadata\<rparr>)
      in (case rq_vcURI req of
            Some vcURI \<Rightarrow>
              if vcURI \<noteq> [] then Inr (demo_verify_vc N mockVCRegistry now req vcURI)
              else otherwise
          | None \<Rightarrow> otherwise))"

text \<open>
  The mock data of the server. \<open>t0\<close> is the clock reading when the module is loaded, in
  milliseconds; \<^verbatim>\<open>Math.floor(Date.now() / 1000)\<close> is \<open>t0 div 1000\<close>.
\<close>

definition mockNFTRegistry :: "int \<Rightarrow> nft_registry" where
  "mockNFTRegistry t0 =
     [''42'' \<mapsto>
        \<lparr>nft_tokenId = ''42'', nft_amount = ''50000.00'', nft_asset = ''USDC'',
         nft_holderAddress = ''0x742d35Cc6634C0532925a3b8D93C7E8F476C4578'',
         nft_expiry = t0 div 1000 + 30 * 24 * 60 * 60,
         nft_kycCompliant = True, nft_sanctionsCleared = True,
         nft_custodian = ''Coinbase Custody'',
         nft_auditHash = ''0x8f3b4e9a7c1d6f2e5b8a9c4d7e1f6a2b5c8e1a4b7c2d5e8f1a4b7c2d5e8f1a4b'',
         nft_valid = True\<rparr>]"

definition mockVCRegistry :: "(int \<Rightarrow> string) \<Rightarrow> int \<Rightarrow> vc_registry" where
  "mockVCRegistry isoText t0 =
     [''did:ethr:0x742d35Cc6634C0532925a3b8D93C7E8F476C4578/vc/pof-42'' \<mapsto>
        \<lparr>vcd_vcURI = ''did:ethr:0x742d35Cc6634C0532925a3b8D93C7E8F476C4578/vc/pof-42'',
         vcd_valid = True,
         vcd_claims = [''ProofOfFunds'', ''KYCCompliant'', ''SanctionsCleared''],
         vcd_issuedBy = ''UnyKorn Proof of Funds Service'',
         vcd_expiresAt = isoText (t0 + 30 * 24 * 60 * 60 * 1000),
         vcd_verifiedAt = t0,
         vcd_metadata =
           \<lparr>md_amount = ''50000.00'', md_currency = ''USDC'', md_tokenId = ''42'',
            md_holderDID = ''did:ethr:0x742d35Cc6634C0532925a3b8D93C7E8F476C4578''\<rparr>\<rparr>]"

section \<open>Credential issuer (src/vc-issuer.ts)\<close>

text \<open>
  The ethers library and the JSON-RPC provider are outside the repository. Their operations
  are the fields of an environment: the chain id the provider reports, EIP-712 signing with
  a key, recovery of the signer's address from a signature (each of the three either throws,
  \<open>Inl\<close>, or returns, \<open>Inr\<close>), and the address of the wallet built from a key. Date texts are strings; \<open>dateParse s\<close> is the time value of
  \<^verbatim>\<open>new Date(s)\<close>, \<open>None\<close> for an invalid date.
\<close>

record POFData =
  tokenId :: string
  asset :: string
  amount :: string
  expiry :: int
  holderAddress :: string
  kycCompliant :: bool
  sanctionsCleared :: bool
  custodian :: "string option"
  auditHash :: "string option"

record VCIssuerConfig =
  issuerDID :: string
  signingKey :: string
  registryContract :: string
  rpcUrl :: string

text \<open>
  The subject payload of a credential: the holder and the three sections that
  \<^verbatim>\<open>issueProofOfFunds\<close> writes and \<^verbatim>\<open>extractCredentialClaims\<close> reads. A section the
  document does not have is \<open>None\<close>.
\<close>

record hasAsset =
  ha_type :: string
  minimumAmount :: string
  currency :: string

record proofOfFunds =
  pf_tokenId :: string
  verifiedAmount :: string
  pf_custodian :: string
  auditTrail :: "string option"

record compliance =
  kycApproved :: bool
  cp_sanctionsCleared :: bool
  verifiedAt :: string

record credentialSubject =
  cs_id :: string
  cs_hasAsset :: "hasAsset option"
  cs_proofOfFunds :: "proofOfFunds option"
  cs_compliance :: "compliance option"

datatype issuer = IssuerString string | IssuerObject (issuer_id: string) (issuer_name: string)

datatype context_field = ContextArray "string list" | ContextString string

record credentialStatus =
  status_id :: string
  status_type :: string

record vc_proof =
  proof_type :: string
  created :: string
  verificationMethod :: string
  proofPurpose :: string
  proofValue :: "string option"

text \<open>A credential document. Every property may be missing, as in the object \<^verbatim>\<open>{}\<close>.\<close>

record VerifiableCredential =
  vc_context :: "context_field option"
  vc_type :: "string list option"
  vc_issuer :: "issuer option"
  issuanceDate :: "string option"
  expirationDate :: "string option"
  vc_credentialSubject :: "credentialSubject option"
  vc_credentialStatus :: "credentialStatus option"
  proof_of :: "vc_proof option"

record eip712_domain =
  domain_name :: string
  domain_version :: string
  chainId :: int
  verifyingContract :: string

text \<open>
  The value that is signed. \<^verbatim>\<open>JSON.stringify(vc.credentialSubject)\<close> is a function of the
  subject, and the field holds the subject it is the text of.
\<close>

record typed_value =
  tv_context :: "string option list"
  tv_type :: "string list option"
  tv_issuer :: string
  tv_issuanceDate :: "string option"
  tv_expirationDate :: string
  tv_credentialSubject :: "credentialSubject option"

text \<open>What a JavaScript function throws: a RangeError, a TypeError for the read of a property
  of \<^verbatim>\<open>undefined\<close>, or an Error with its message.\<close>

datatype js_error = RangeError | TypeError string | Error string

record ethers =
  getNetwork :: "js_error + int"
  signTypedData :: "string \<Rightarrow> eip712_domain \<Rightarrow> typed_value \<Rightarrow> js_error + string"
  verifyTypedData :: "eip712_domain \<Rightarrow> typed_value \<Rightarrow> string \<Rightarrow> js_error + string"
  walletAddress :: "string \<Rightarrow> string"

text \<open>\<^verbatim>\<open>String.prototype.startsWith\<close> and \<^verbatim>\<open>String.prototype.includes\<close>.\<close>

fun startsWith :: "string \<Rightarrow> string \<Rightarrow> bool" where
  "startsWith s [] = True"
| "startsWith [] (p # ps) = False"
| "startsWith (c # cs) (p # ps) = (c = p \<and> startsWith cs ps)"

fun js_includes :: "string \<Rightarrow> string \<Rightarrow> bool" where
  "js_includes [] sub = (sub = [])"
| "js_includes (c # cs) sub = (startsWith (c # cs) sub \<or> js_includes cs sub)"

text \<open>\<^verbatim>\<open>toLowerCase\<close> on the ASCII letters, which is all an address holds.\<close>

definition toLowerCase :: "string \<Rightarrow> string" where
  "toLowerCase s =
     map (\<lambda>c. if 65 \<le> (of_char c :: nat) \<and> (of_char c :: nat) \<le> 90
              then char_of ((of_char c :: nat) + 32) else c) s"

definition extractCurrency :: "string \<Rightarrow> string" where
  "extractCurrency a =
     (if js_includes a ''USDC'' then ''USDC''
      else if js_includes a ''USDT'' then ''USDT''
      else if js_includes a ''ETH'' then ''ETH''
      else if js_includes a ''BTC'' then ''BTC''
      else ''USD'')"

text \<open>
  The \<open>value\<close> object that \<^verbatim>\<open>signVC\<close> and \<^verbatim>\<open>verifyVCSignature\<close> both build from a
  document. Reading \<^verbatim>\<open>vc.issuer.id\<close> of a document without issuer throws a TypeError.
\<close>

definition typed_value_of :: "VerifiableCredential \<Rightarrow> typed_value option" where
  "typed_value_of vc =
     (case vc_issuer vc of
        None \<Rightarrow> None
      | Some iss \<Rightarrow>
          Some \<lparr>tv_context = (case vc_context vc of
                                 Some (ContextArray cs) \<Rightarrow> map Some cs
                               | Some (ContextString c) \<Rightarrow> [Some c]
                               | None \<Rightarrow> [None]),
                tv_type = vc_type vc,
                tv_issuer = (case iss of IssuerString i \<Rightarrow> i | IssuerObject i n \<Rightarrow> i),
                tv_issuanceDate = issuanceDate vc,
                tv_expirationDate = (case expirationDate vc of None \<Rightarrow> [] | Some d \<Rightarrow> d),
                tv_credentialSubject = vc_credentialSubject vc\<rparr>)"

definition vc_domain :: "VCIssuerConfig \<Rightarrow> int \<Rightarrow> eip712_domain" where
  "vc_domain config cid =
     \<lparr>domain_name = ''UnyKorn Verifiable Credentials'', domain_version = ''1'', chainId = cid,
      verifyingContract = registryContract config\<rparr>"

text \<open>\<^verbatim>\<open>signVC\<close>; \<open>signedAt\<close> is the clock reading of \<^verbatim>\<open>created: new Date().toISOString()\<close>.\<close>

definition signVC :: "ethers \<Rightarrow> VCIssuerConfig \<Rightarrow> (int \<Rightarrow> string) \<Rightarrow> int \<Rightarrow> VerifiableCredential \<Rightarrow>
    js_error + VerifiableCredential" where
  "signVC E config isoText signedAt vc =
     (case getNetwork E of
        Inl e \<Rightarrow> Inl e
      | Inr cid \<Rightarrow>
          (case typed_value_of vc of
             None \<Rightarrow> Inl (TypeError ''id'')
           | Some v \<Rightarrow>
               (case signTypedData E (signingKey config) (vc_domain config cid) v of
                  Inl e \<Rightarrow> Inl e
                | Inr signature \<Rightarrow>
                    (case toISOString isoText signedAt of
                       None \<Rightarrow> Inl RangeError
                     | Some createdText \<Rightarrow>
                         Inr (vc\<lparr>proof_of := Some
                                \<lparr>proof_type = ''EthereumEip712Signature2021'',
                                 created = createdText,
                                 verificationMethod = issuerDID config @ ''#key-1'',
                                 proofPurpose = ''assertionMethod'',
                                 proofValue = Some signature\<rparr>\<rparr>)))))"

text \<open>
  \<^verbatim>\<open>issueProofOfFunds\<close>. The subject payload and the document it hands to \<^verbatim>\<open>signVC\<close>, given
  the texts of the two dates; \<open>now\<close> is the clock reading of its first line.
\<close>

definition pof_credentialSubject :: "string \<Rightarrow> string \<Rightarrow> POFData \<Rightarrow> credentialSubject" where
  "pof_credentialSubject nowText holderDID pofData =
     \<lparr>cs_id = holderDID,
      cs_hasAsset = Some \<lparr>ha_type = asset pofData, minimumAmount = amount pofData,
                          currency = extractCurrency (asset pofData)\<rparr>,
      cs_proofOfFunds = Some
        \<lparr>pf_tokenId = tokenId pofData, verifiedAmount = amount pofData,
         pf_custodian = (case custodian pofData of
                           None \<Rightarrow> ''self-custody''
                         | Some c \<Rightarrow> if c = [] then ''self-custody'' else c),
         auditTrail = auditHash pofData\<rparr>,
      cs_compliance = Some
        \<lparr>kycApproved = kycCompliant pofData,
         cp_sanctionsCleared = sanctionsCleared pofData,
         verifiedAt = nowText\<rparr>\<rparr>"

definition pof_document :: "VCIssuerConfig \<Rightarrow> string \<Rightarrow> string \<Rightarrow> string \<Rightarrow> POFData \<Rightarrow>
    VerifiableCredential" where
  "pof_document config nowText expirationText holderDID pofData =
     \<lparr>vc_context = Some (ContextArray
        [''https://www.w3.org/2018/credentials/v1'',
         ''https://pof.unykorn.com/contexts/v1'',
         ''https://schema.org'']),
      vc_type = Some [''VerifiableCredential'', ''ProofOfFundsCredential''],
      vc_issuer = Some (IssuerObject (issuerDID config) ''UnyKorn Proof of Funds Service''),
      issuanceDate = Some nowText,
      expirationDate = Some expirationText,
      vc_credentialSubject = Some (pof_credentialSubject nowText holderDID pofData),
      vc_credentialStatus = Some
        \<lparr>status_id = registryContract config @ ''#'' @ tokenId pofData,
         status_type = ''EthereumAttestationServiceStatus''\<rparr>,
      proof_of = None\<rparr>"

definition issueProofOfFunds :: "ethers \<Rightarrow> VCIssuerConfig \<Rightarrow> (int \<Rightarrow> string) \<Rightarrow> int \<Rightarrow> int \<Rightarrow> string \<Rightarrow>
    POFData \<Rightarrow> js_error + VerifiableCredential" where
  "issueProofOfFunds E config isoText now signedAt holderDID pofData =
     (case toISOString isoText now of
        None \<Rightarrow> Inl RangeError
      | Some nowText \<Rightarrow>
          (case toISOString isoText (expiry pofData * 1000) of
             None \<Rightarrow> Inl RangeError
           | Some expirationText \<Rightarrow>
               signVC E config isoText signedAt
                 (pof_document config nowText expirationText holderDID pofData)))"

text \<open>\<^verbatim>\<open>verifyVCSignature\<close>: every throw inside it is caught and answered with false.\<close>

definition verifyVCSignature :: "ethers \<Rightarrow> VCIssuerConfig \<Rightarrow> VerifiableCredential \<Rightarrow> bool" where
  "verifyVCSignature E config vc =
     (case proof_of vc of
        None \<Rightarrow> False
      | Some p \<Rightarrow>
          (case proofValue p of
             None \<Rightarrow> False
           | Some signature \<Rightarrow>
               if signature = [] then False
               else (case getNetwork E of
                       Inl e \<Rightarrow> False
                     | Inr cid \<Rightarrow>
                         (case typed_value_of vc of
                            None \<Rightarrow> False
                          | Some v \<Rightarrow>
                              (case verifyTypedData E (vc_domain config cid) v signature of
                                 Inl e \<Rightarrow> False
                               | Inr recoveredAddress \<Rightarrow>
                                   toLowerCase recoveredAddress
                                     = toLowerCase (walletAddress E (signingKey config)))))))"

text \<open>
  \<^verbatim>\<open>checkRevocationStatus\<close>: without status pointer it answers false; with one, the body of
  its \<^verbatim>\<open>try\<close> is the single statement \<^verbatim>\<open>return false\<close>.
\<close>

definition checkRevocationStatus :: "VerifiableCredential \<Rightarrow> bool" where
  "checkRevocationStatus vc = (case vc_credentialStatus vc of None \<Rightarrow> False | Some st \<Rightarrow> False)"

record verification =
  verified :: bool
  error :: "string option"
  details :: "(issuer option \<times> string list option) option"

text \<open>
  \<^verbatim>\<open>verifyCredential\<close>, read at clock value \<open>now\<close>. The test
  \<^verbatim>\<open>vc.expirationDate && new Date(vc.expirationDate) < new Date()\<close> is false for a missing or
  empty date text and for a text that is not a date.
\<close>

definition credentialExpired :: "(string \<Rightarrow> int option) \<Rightarrow> int \<Rightarrow> VerifiableCredential \<Rightarrow> bool" where
  "credentialExpired dateParse now vc =
     (case expirationDate vc of
        None \<Rightarrow> False
      | Some d \<Rightarrow> if d = [] then False
                  else (case dateParse d of None \<Rightarrow> False | Some t \<Rightarrow> t < now))"

definition verifyCredential :: "ethers \<Rightarrow> VCIssuerConfig \<Rightarrow> (string \<Rightarrow> int option) \<Rightarrow> int \<Rightarrow>
    VerifiableCredential \<Rightarrow> verification" where
  "verifyCredential E config dateParse now vc =
     (if \<not> verifyVCSignature E config vc
      then \<lparr>verified = False, error = Some ''Invalid signature'', details = None\<rparr>
      else if credentialExpired dateParse now vc
      then \<lparr>verified = False, error = Some ''Credential expired'', details = None\<rparr>
      else if checkRevocationStatus vc
      then \<lparr>verified = False, error = Some ''Credential revoked'', details = None\<rparr>
      else \<lparr>verified = True, error = None, details = Some (vc_issuer vc, vc_type vc)\<rparr>)"

section \<open>Verification endpoint of the SiloBridge API (src/api/silobridge-api.ts)\<close>

text \<open>
  The body of a request and the requirements taken from it. \<open>minAmount\<close> is declared a number;
  the route's \<^verbatim>\<open>isNumeric()\<close> also lets a numeric string reach the handler unchanged.
\<close>

record 'n requirements =
  requiredAsset :: "string option"
  minAmount :: "'n js_amount option"

record 'n VerificationRequest =
  req_vcURI :: "string option"
  req_tokenId :: "string option"
  req_requiredAsset :: "string option"
  req_minAmount :: "'n js_amount option"

datatype api_metadata = EmptyObject | TokenMetadata string string string

record api_result =
  ar_valid :: bool
  ar_reason :: "string option"
  ar_claims :: "string list option"
  ar_issuedBy :: "string option"
  ar_expiresAt :: "string option"
  ar_verifiedAt :: "int option"
  ar_metadata :: "api_metadata option"

text \<open>The text of \<^verbatim>\<open>error.message\<close>, as Node words its own errors.\<close>

fun error_message :: "js_error \<Rightarrow> string" where
  "error_message (Error m) = m"
| "error_message RangeError = ''Invalid time value''"
| "error_message (TypeError property) =
     ''Cannot read properties of undefined (reading '' @ [CHR 0x27] @ property @ [CHR 0x27] @ '')''"

text \<open>The object \<^verbatim>\<open>{valid: false, reason}\<close> of the early returns and the \<^verbatim>\<open>catch\<close> blocks.\<close>

definition invalid_result :: "string \<Rightarrow> api_result" where
  "invalid_result reason =
     \<lparr>ar_valid = False, ar_reason = Some reason, ar_claims = None, ar_issuedBy = None,
      ar_expiresAt = None, ar_verifiedAt = None, ar_metadata = None\<rparr>"

text \<open>\<^verbatim>\<open>error.message || fallback\<close>\<close>

definition caught :: "js_error \<Rightarrow> string \<Rightarrow> api_result" where
  "caught e fallback =
     invalid_result (if error_message e = [] then fallback else error_message e)"

text \<open>
  \<^verbatim>\<open>fetchCredentialFromURI\<close>: for an \<^verbatim>\<open>ipfs://\<close> URI the mock returns the empty object, for
  every other URI it throws.
\<close>

definition fetchCredentialFromURI :: "string \<Rightarrow> js_error + VerifiableCredential" where
  "fetchCredentialFromURI uri =
     (if startsWith uri ''ipfs://''
      then Inr \<lparr>vc_context = None, vc_type = None, vc_issuer = None, issuanceDate = None,
                expirationDate = None, vc_credentialSubject = None, vc_credentialStatus = None,
                proof_of = None\<rparr>
      else Inl (Error ''Unsupported credential URI scheme''))"

text \<open>\<^verbatim>\<open>checkCredentialRequirements\<close> returns \<^verbatim>\<open>{valid: true, metadata: {}}\<close> for every input.\<close>

definition checkCredentialRequirements ::
  "VerifiableCredential \<Rightarrow> 'n requirements \<Rightarrow> bool \<times> string option \<times> api_metadata" where
  "checkCredentialRequirements vc reqs = (True, None, EmptyObject)"

text \<open>A value inside a template literal; \<^verbatim>\<open>undefined\<close> prints as its name.\<close>

definition template :: "string option \<Rightarrow> string" where
  "template v = (case v of None \<Rightarrow> ''undefined'' | Some t \<Rightarrow> t)"

definition extractCredentialClaims :: "VerifiableCredential \<Rightarrow> js_error + string list" where
  "extractCredentialClaims vc =
     (case vc_type vc of
        None \<Rightarrow> Inl (TypeError ''includes'')
      | Some types \<Rightarrow>
          if ''ProofOfFundsCredential'' \<in> set types \<and> vc_credentialSubject vc = None
          then Inl (TypeError ''hasAsset'')
          else Inr
            ((if ''ProofOfFundsCredential'' \<in> set types
              then [''Verified funds: ''
                      @ template (map_option minimumAmount
                                   (Option.bind (vc_credentialSubject vc) cs_hasAsset))
                      @ '' ''
                      @ template (map_option currency
                                   (Option.bind (vc_credentialSubject vc) cs_hasAsset))]
              else [])
             @ (if ''KYCCredential'' \<in> set types then [''KYC Approved''] else [])
             @ (if ''DeviceAttestationCredential'' \<in> set types then [''Device Verified''] else [])))"

definition verifyVC :: "ethers \<Rightarrow> VCIssuerConfig \<Rightarrow> (string \<Rightarrow> int option) \<Rightarrow> int \<Rightarrow> string \<Rightarrow>
    'n requirements \<Rightarrow> api_result" where
  "verifyVC E config dateParse now vcURI reqs =
     (case fetchCredentialFromURI vcURI of
        Inl e \<Rightarrow> caught e ''Verification failed''
      | Inr vc \<Rightarrow>
          (let verification = verifyCredential E config dateParse now vc in
           if \<not> verified verification
           then invalid_result
                  (case error verification of
                     None \<Rightarrow> ''Invalid credential''
                   | Some m \<Rightarrow> if m = [] then ''Invalid credential'' else m)
           else (case checkCredentialRequirements vc reqs of
                   (rc_valid, rc_reason, rc_metadata) \<Rightarrow>
                     (case extractCredentialClaims vc of
                        Inl e \<Rightarrow> caught e ''Verification failed''
                      | Inr claims \<Rightarrow>
                          (case vc_issuer vc of
                             None \<Rightarrow> caught (TypeError ''name'') ''Verification failed''
                           | Some iss \<Rightarrow>
                               \<lparr>ar_valid = rc_valid, ar_reason = rc_reason,
                                ar_claims = Some claims,
                                ar_issuedBy = Some (case iss of IssuerString i \<Rightarrow> i
                                                    | IssuerObject i n \<Rightarrow> n),
                                ar_expiresAt = expirationDate vc,
                                ar_verifiedAt = Some now,
                                ar_metadata = Some rc_metadata\<rparr>)))))"

text \<open>
  The two conjuncts of \<^verbatim>\<open>meetsRequirements\<close> in \<^verbatim>\<open>verifyPOFToken\<close>. A requirement that is
  absent, the empty string or the number zero is falsy and switches its conjunct off; every
  other string, the text of a zero included, is truthy. In
  \<^verbatim>\<open>parseFloat(pofData.amount) >= requirements.minAmount\<close> a string on the right is converted
  with \<^verbatim>\<open>Number\<close>.
\<close>

definition assetMeets :: "'n requirements \<Rightarrow> POFData \<Rightarrow> bool" where
  "assetMeets reqs pofData =
     (case requiredAsset reqs of
        None \<Rightarrow> True
      | Some ra \<Rightarrow> if ra = [] then True else asset pofData = ra)"

definition amountMeets :: "'n::{linorder,zero} js_numbers \<Rightarrow> 'n requirements \<Rightarrow> POFData \<Rightarrow> bool" where
  "amountMeets N reqs pofData =
     (case minAmount reqs of
        None \<Rightarrow> True
      | Some m \<Rightarrow> if amount_truthy m
                  then js_ge (parseFloat N (amount pofData)) (amount_number N m)
                  else True)"

definition verifyPOFToken :: "'n::{linorder,zero} js_numbers \<Rightarrow> (int \<Rightarrow> string) \<Rightarrow>
    (string \<Rightarrow> POFData option) \<Rightarrow> int \<Rightarrow> string \<Rightarrow> 'n requirements \<Rightarrow> api_result" where
  "verifyPOFToken N isoText pofTokenStore now tid reqs =
     (case pofTokenStore tid of
        None \<Rightarrow> invalid_result ''PoF token not found''
      | Some pofData \<Rightarrow>
          (let meetsRequirements = (assetMeets reqs pofData \<and> amountMeets N reqs pofData) in
           case toISOString isoText (expiry pofData * 1000) of
             None \<Rightarrow> caught RangeError ''Token verification failed''
           | Some expiresText \<Rightarrow>
               \<lparr>ar_valid = (meetsRequirements \<and> kycCompliant pofData \<and> sanctionsCleared pofData),
                ar_reason = (if meetsRequirements then None else Some ''Requirements not met''),
                ar_claims = Some [''Holds '' @ amount pofData @ '' '' @ asset pofData,
                                  ''KYC Compliant'', ''Sanctions Cleared''],
                ar_issuedBy = Some ''UnyKorn PoF Service'',
                ar_expiresAt = Some expiresText,
                ar_verifiedAt = Some now,
                ar_metadata = Some (TokenMetadata (amount pofData) (asset pofData) tid)\<rparr>))"

text \<open>
  Handler of \<^verbatim>\<open>POST /api/verify\<close>. Both helpers catch what they throw, so the handler's own
  \<^verbatim>\<open>catch\<close> is never entered.
\<close>

definition api_verify :: "ethers \<Rightarrow> VCIssuerConfig \<Rightarrow> (string \<Rightarrow> int option) \<Rightarrow>
    'n::{linorder,zero} js_numbers \<Rightarrow> (int \<Rightarrow> string) \<Rightarrow> (string \<Rightarrow> POFData option) \<Rightarrow> int \<Rightarrow>
    'n VerificationRequest \<Rightarrow> http_error + api_result" where
  "api_verify E config dateParse N isoText pofTokenStore now req =
     (let reqs = \<lparr>requiredAsset = req_requiredAsset req, minAmount = req_minAmount req\<rparr>;
          otherwise =
            (case req_tokenId req of
               Some tid \<Rightarrow>
                 if tid \<noteq> [] then Inr (verifyPOFToken N isoText pofTokenStore now tid reqs)
                 else Inl (HttpError 400 ''Either vcURI or tokenId must be provided'')
             | None \<Rightarrow> Inl (HttpError 400 ''Either vcURI or tokenId must be provided''))
      in (case req_vcURI req of
            Some vcURI \<Rightarrow>
              if vcURI \<noteq> [] then Inr (verifyVC E config dateParse now vcURI reqs) else otherwise
          | None \<Rightarrow> otherwise))"

section \<open>Example data\<close>

text \<open>
  Concrete values on which the model is run below: an environment whose toy signature
  depends on the key and on the signed expiration date and whose recovery returns the
  signer's address in mixed case, an issuer configuration, the date texts of four instants,
  and the proof-of-funds record of token 42.
\<close>

definition example_ethers :: ethers where
  "example_ethers =
     \<lparr>getNetwork = Inr 1,
      signTypedData = (\<lambda>key d v. Inr (''sig/'' @ key @ ''/'' @ tv_expirationDate v)),
      verifyTypedData = (\<lambda>d v sg. if sg = ''sig/key1/'' @ tv_expirationDate v then Inr ''0xABC1''
                                   else Inr ''0x0000''),
      walletAddress = (\<lambda>key. if key = ''key1'' then ''0xabc1'' else ''0xffff'')\<rparr>"

definition example_config :: VCIssuerConfig where
  "example_config =
     \<lparr>issuerDID = ''did:ethr:0x123'', signingKey = ''key1'', registryContract = ''0xRegistry'',
      rpcUrl = ''https://rpc.example''\<rparr>"

definition example_isoText :: "int \<Rightarrow> string" where
  "example_isoText ms =
     (if ms = 1000 then ''1970-01-01T00:00:01.000Z''
      else if ms = 2000 then ''1970-01-01T00:00:02.000Z''
      else if ms = 2592000000 then ''1970-01-31T00:00:00.000Z''
      else ''1970-01-01T00:00:00.000Z'')"

definition example_dateParse :: "string \<Rightarrow> int option" where
  "example_dateParse s =
     (if s = ''1970-01-01T00:00:01.000Z'' then Some 1000
      else if s = ''1970-01-01T00:00:02.000Z'' then Some 2000
      else if s = ''1970-01-31T00:00:00.000Z'' then Some 2592000000
      else if s = ''1970-01-01T00:00:00.000Z'' then Some 0
      else None)"

definition example_pofData :: POFData where
  "example_pofData =
     \<lparr>tokenId = ''42'', asset = ''USDC'', amount = ''50000.00'', expiry = 2592000,
      holderAddress = ''0x742d35Cc6634C0532925a3b8D93C7E8F476C4578'',
      kycCompliant = True, sanctionsCleared = True,
      custodian = Some ''Coinbase Custody'', auditHash = Some ''0x8f3b''\<rparr>"

definition example_parseFloat :: "string \<Rightarrow> int js_number" where
  "example_parseFloat s =
     (if s = ''50000.00'' then Num 50000
      else if s = ''10000'' then Num 10000
      else if s = ''60000'' then Num 60000
      else if s = ''-1'' then Num (- 1)
      else if s = ''9007199254740992'' then Num 9007199254740992
      else if s = ''9007199254740993'' then Num 9007199254740992
      else if s = ''9007199254740995'' then Num 9007199254740996
      else NaN)"

text \<open>
  The table above lists what \<^verbatim>\<open>parseFloat\<close> returns for seven strings; the doubles in it are
  integers and are written as such. The last two entries round: a double has 53 bits of
  mantissa, neither 9007199254740993 nor 9007199254740995 is a double, and each reads as its
  neighbour with the even mantissa.
\<close>

text \<open>
  In the same way, the text of the number 1000 and the numbers that \<^verbatim>\<open>Number\<close> converts four
  strings to; the other entries of the two tables are not used.
\<close>

definition example_numberToString :: "int \<Rightarrow> string" where
  "example_numberToString n = (if n = 1000 then ''1000'' else ''0'')"

definition example_toNumber :: "string \<Rightarrow> int js_number" where
  "example_toNumber s =
     (if s = ''10003600000'' then Num 10003600000
      else if s = ''0'' then Num 0
      else if s = ''10000'' then Num 10000
      else if s = ''60000'' then Num 60000
      else NaN)"

definition example_numbers :: "int js_numbers" where
  "example_numbers =
     \<lparr>parseFloat = example_parseFloat, numberToString = example_numberToString,
      toNumber = example_toNumber\<rparr>"

section \<open>Exact decimal comparison, as the specification words it\<close>






section \<open>Properties of the consent store\<close>

lemma checkConsent_iff:
  "checkConsent N store now uid r s =
     (\<exists>c \<in> set (userConsents store uid).
        grantedTo c = r \<and> s \<in> set (scopes c) \<and> js_gt N (expiresAt c) now)"
  (is "_ = ?R")
proof (cases "find (\<lambda>consent. grantedTo consent = r \<and> s \<in> set (scopes consent)
                              \<and> js_gt N (expiresAt consent) now) (userConsents store uid)")
  case None
  then have "\<not> ?R"
    by (auto simp: find_None_iff)
  moreover have "\<not> checkConsent N store now uid r s"
    unfolding checkConsent_def None by simp
  ultimately show ?thesis by simp
next
  case (Some c)
  then have "c \<in> set (userConsents store uid)"
    and "grantedTo c = r \<and> s \<in> set (scopes c) \<and> js_gt N (expiresAt c) now"
    by (auto simp: find_Some_iff)
  then have ?R by blast
  moreover have "checkConsent N store now uid r s"
    unfolding checkConsent_def Some by simp
  ultimately show ?thesis by simp
qed

lemma overlaps_iff: "overlaps scs c = (set scs \<inter> set (scopes c) \<noteq> {})"
  by (auto simp: overlaps_def list_ex_iff)

lemma userConsents_grant:
  "userConsents (consent_grant N store t0 uid r scs e) uid =
     filter (\<lambda>c. \<not> (grantedTo c = r \<and> overlaps scs c)) (userConsents store uid)
       @ [\<lparr>userId = uid, grantedTo = r, scopes = scs,
           expiresAt = js_add N t0 (case e of None \<Rightarrow> JNumber (30 * 24 * 60 * 60 * 1000)
                                    | Some v \<Rightarrow> v)\<rparr>]"
  by (simp add: consent_grant_def userConsents_def Let_def)


text \<open>
  What the requester holds after a grant: the grants that did not overlap the new scopes,
  and the new grant. So the answer for a granted scope is the comparison of the new
  \<open>expiresAt\<close> with the clock.
\<close>

lemma checkConsent_grant:
  assumes "s \<in> set scs"
  shows "checkConsent N (consent_grant N store t0 uid r scs e) now uid r s =
           js_gt N (js_add N t0 (case e of None \<Rightarrow> JNumber (30 * 24 * 60 * 60 * 1000)
                                   | Some v \<Rightarrow> v)) now"
proof -
  have "\<forall>c \<in> set (filter (\<lambda>c. \<not> (grantedTo c = r \<and> overlaps scs c)) (userConsents store uid)).
          \<not> (grantedTo c = r \<and> s \<in> set (scopes c))"
    using assms by (auto simp: overlaps_iff)
  then show ?thesis
    unfolding checkConsent_iff userConsents_grant using assms by auto
qed

lemma checkConsent_lazy_expiry:
  "checkConsent N (store(uid \<mapsto> filter (\<lambda>c. js_gt N (expiresAt c) now) (userConsents store uid)))
       now uid r s =
     checkConsent N store now uid r s"
  by (auto simp: checkConsent_iff userConsents_def)

text \<open>
  C9. The code does what the claim says only when \<open>expiresIn\<close> is a number or is absent: then
  \<open>hasConsent(subject, requester, s)\<close> for a granted scope \<open>s\<close> is true exactly while the clock
  is before \<open>t0 + ttl\<close> (thirty days by default), whatever the store held before, and expired
  grants can be deleted without changing any answer. When \<open>expiresIn\<close> is a numeric string,
  which the route accepts, \<^verbatim>\<open>Date.now() + expiresIn\<close> is the text of the clock followed by that
  string, and the answer is the comparison of the clock with the number this text converts
  to. A grant made at clock 1000 with \<open>expiresIn\<close> "3600000" gets the \<open>expiresAt\<close> "10003600000",
  and consent is still reported when the hour has elapsed, at clock 3601000, and long after.
\<close>

theorem grant_hasConsent_number_or_string:
  "(s \<in> set scs \<longrightarrow>
      checkConsent N (consent_grant N store t0 uid r scs (Some (JNumber ttl))) now uid r s
        = (now < t0 + ttl) \<and>
      checkConsent N (consent_grant N store t0 uid r scs None) now uid r s
        = (now < t0 + 30 * 24 * 60 * 60 * 1000) \<and>
      checkConsent N (consent_grant N store t0 uid r scs (Some (JString txt))) now uid r s
        = js_lt (Num now) (toNumber N (numberToString N t0 @ txt))) \<and>
   checkConsent N (store(uid \<mapsto> filter (\<lambda>c. js_gt N (expiresAt c) now) (userConsents store uid)))
       now uid r' s' =
     checkConsent N store now uid r' s' \<and>
   userConsents (consent_grant example_numbers Map.empty 1000 ''alice'' ''bank'' [''kyc_status'']
                   (Some (JString ''3600000''))) ''alice''
     = [\<lparr>userId = ''alice'', grantedTo = ''bank'', scopes = [''kyc_status''],
         expiresAt = JString ''10003600000''\<rparr>] \<and>
   checkConsent example_numbers
     (consent_grant example_numbers Map.empty 1000 ''alice'' ''bank'' [''kyc_status'']
        (Some (JString ''3600000'')))
     3601000 ''alice'' ''bank'' ''kyc_status'' \<and>
   checkConsent example_numbers
     (consent_grant example_numbers Map.empty 1000 ''alice'' ''bank'' [''kyc_status'']
        (Some (JString ''3600000'')))
     10000000000 ''alice'' ''bank'' ''kyc_status''"
proof -
  have held:
    "userConsents (consent_grant example_numbers Map.empty 1000 ''alice'' ''bank'' [''kyc_status'']
                     (Some (JString ''3600000''))) ''alice''
       = [\<lparr>userId = ''alice'', grantedTo = ''bank'', scopes = [''kyc_status''],
           expiresAt = JString ''10003600000''\<rparr>]"
    by (simp add: userConsents_grant example_numbers_def example_numberToString_def)
       (simp add: userConsents_def)
  have still:
    "checkConsent example_numbers
       (consent_grant example_numbers Map.empty 1000 ''alice'' ''bank'' [''kyc_status'']
          (Some (JString ''3600000'')))
       now' ''alice'' ''bank'' ''kyc_status'' = (now' < 10003600000)" for now'
    unfolding checkConsent_iff held
    by (simp add: js_gt_def example_numbers_def example_toNumber_def)
  have granted:
    "s \<in> set scs \<longrightarrow>
      checkConsent N (consent_grant N store t0 uid r scs (Some (JNumber ttl))) now uid r s
        = (now < t0 + ttl) \<and>
      checkConsent N (consent_grant N store t0 uid r scs None) now uid r s
        = (now < t0 + 30 * 24 * 60 * 60 * 1000) \<and>
      checkConsent N (consent_grant N store t0 uid r scs (Some (JString txt))) now uid r s
        = js_lt (Num now) (toNumber N (numberToString N t0 @ txt))"
    by (simp add: checkConsent_grant js_gt_def)
  show ?thesis
    using granted by (simp add: checkConsent_lazy_expiry held still)
qed

theorem grant_hasConsent_number_or_string_witness:
  "''kyc_status'' \<in> set [''kyc_status''] \<and>
   checkConsent example_numbers
     (consent_grant example_numbers Map.empty 1000 ''alice'' ''bank'' [''kyc_status'']
        (Some (JNumber 3600000)))
     2000 ''alice'' ''bank'' ''kyc_status'' \<and>
   \<not> checkConsent example_numbers
       (consent_grant example_numbers Map.empty 1000 ''alice'' ''bank'' [''kyc_status'']
          (Some (JNumber 3600000)))
       3601000 ''alice'' ''bank'' ''kyc_status''"
  using grant_hasConsent_number_or_string
          [where s = "''kyc_status''" and scs = "[''kyc_status'']" and N = example_numbers
             and store = Map.empty and ?t0.0 = 1000 and uid = "''alice''" and r = "''bank''"
             and ttl = 3600000 and now = 2000, THEN conjunct1]
        grant_hasConsent_number_or_string
          [where s = "''kyc_status''" and scs = "[''kyc_status'']" and N = example_numbers
             and store = Map.empty and ?t0.0 = 1000 and uid = "''alice''" and r = "''bank''"
             and ttl = 3600000 and now = 3601000, THEN conjunct1]
  by simp




section \<open>Properties of dual-rail verification\<close>

lemma verify_dual_Inr:
  "verify_dual V N now req = Inr r \<Longrightarrow>
     \<exists>vcURI tid. rq_vcURI req = Some vcURI \<and> rq_tokenId req = Some tid \<and>
        vcURI \<noteq> [] \<and> tid \<noteq> [] \<and>
        r = dual_response (vc_rail V vcURI) (nft_rail N now tid) now"
  by (auto simp: verify_dual_def split: option.splits if_splits)

lemma dual_response_valid:
  "dr_valid (dual_response a b now) =
     ((rr_valid a \<and> rr_valid b) \<and>
      map_option rm_amount (rr_metadata a) = map_option rm_amount (rr_metadata b) \<and>
      map_option rm_currency (rr_metadata a) = map_option rm_currency (rr_metadata b))"
  by (simp add: dual_response_def cross_validate_def Let_def)

lemma dual_response_fields:
  "dr_vc (dual_response a b now) = a" "dr_nft (dual_response a b now) = b"
  "dr_crossValidation (dual_response a b now) = cross_validate a b"
  by (simp_all add: dual_response_def Let_def)

text \<open>
  C1. Whenever the dual endpoint answers with a result, its \<open>valid\<close> flag is the conjunction
  of: both rail results valid, the two metadata amounts equal, the two metadata currencies
  equal (and the three \<open>crossValidation\<close> flags are these three conditions). In particular,
  for a registered credential and a registered token that are both valid (the token
  unexpired) and carry the same amount and currency, the overall answer is valid; and with
  only the token's amount changed to a different string, \<open>amountMatch\<close> is false and the
  overall answer is not valid.
\<close>

theorem verifyDual_valid_iff_cross_validated:
  "(verify_dual V N now req = Inr r \<longrightarrow>
      dr_valid r =
        ((rr_valid (dr_vc r) \<and> rr_valid (dr_nft r)) \<and>
         map_option rm_amount (rr_metadata (dr_vc r)) = map_option rm_amount (rr_metadata (dr_nft r)) \<and>
         map_option rm_currency (rr_metadata (dr_vc r))
           = map_option rm_currency (rr_metadata (dr_nft r))) \<and>
      bothValid (dr_crossValidation r) = (rr_valid (dr_vc r) \<and> rr_valid (dr_nft r)) \<and>
      amountMatch (dr_crossValidation r) =
        (map_option rm_amount (rr_metadata (dr_vc r)) = map_option rm_amount (rr_metadata (dr_nft r))) \<and>
      currencyMatch (dr_crossValidation r) =
        (map_option rm_currency (rr_metadata (dr_vc r))
           = map_option rm_currency (rr_metadata (dr_nft r)))) \<and>
   (vcURI \<noteq> [] \<and> tid \<noteq> [] \<and> V vcURI = Some vcData \<and> N tid = Some nftData \<and>
    vcd_valid vcData \<and> nft_valid nftData \<and> nft_expiry nftData * 1000 > now \<and>
    md_amount (vcd_metadata vcData) = nft_amount nftData \<and>
    md_currency (vcd_metadata vcData) = nft_asset nftData \<longrightarrow>
      (case verify_dual V N now
              \<lparr>rq_vcURI = Some vcURI, rq_tokenId = Some tid, rq_requiredAsset = ra,
               rq_minAmount = ma\<rparr> of
         Inr res \<Rightarrow> dr_valid res
       | Inl e \<Rightarrow> False) \<and>
      (mutated \<noteq> nft_amount nftData \<longrightarrow>
         (case verify_dual V (N(tid \<mapsto> nftData\<lparr>nft_amount := mutated\<rparr>)) now
                 \<lparr>rq_vcURI = Some vcURI, rq_tokenId = Some tid, rq_requiredAsset = ra,
                  rq_minAmount = ma\<rparr> of
            Inr res \<Rightarrow> \<not> amountMatch (dr_crossValidation res) \<and> \<not> dr_valid res
          | Inl e \<Rightarrow> False)))"
proof (intro conjI impI)
  assume "verify_dual V N now req = Inr r"
  then obtain a b where r: "r = dual_response a b now"
    by (blast dest: verify_dual_Inr)
  show "dr_valid r =
        ((rr_valid (dr_vc r) \<and> rr_valid (dr_nft r)) \<and>
         map_option rm_amount (rr_metadata (dr_vc r)) = map_option rm_amount (rr_metadata (dr_nft r)) \<and>
         map_option rm_currency (rr_metadata (dr_vc r))
           = map_option rm_currency (rr_metadata (dr_nft r)))"
    unfolding r by (simp add: dual_response_valid dual_response_fields)
  show "bothValid (dr_crossValidation r) = (rr_valid (dr_vc r) \<and> rr_valid (dr_nft r))"
    unfolding r by (simp add: dual_response_fields cross_validate_def)
  show "amountMatch (dr_crossValidation r) =
        (map_option rm_amount (rr_metadata (dr_vc r)) = map_option rm_amount (rr_metadata (dr_nft r)))"
    unfolding r by (simp add: dual_response_fields cross_validate_def)
  show "currencyMatch (dr_crossValidation r) =
        (map_option rm_currency (rr_metadata (dr_vc r))
           = map_option rm_currency (rr_metadata (dr_nft r)))"
    unfolding r by (simp add: dual_response_fields cross_validate_def)
next
  assume h: "vcURI \<noteq> [] \<and> tid \<noteq> [] \<and> V vcURI = Some vcData \<and> N tid = Some nftData \<and>
    vcd_valid vcData \<and> nft_valid nftData \<and> nft_expiry nftData * 1000 > now \<and>
    md_amount (vcd_metadata vcData) = nft_amount nftData \<and>
    md_currency (vcd_metadata vcData) = nft_asset nftData"
  then show "case verify_dual V N now
              \<lparr>rq_vcURI = Some vcURI, rq_tokenId = Some tid, rq_requiredAsset = ra,
               rq_minAmount = ma\<rparr> of
         Inr res \<Rightarrow> dr_valid res
       | Inl e \<Rightarrow> False"
    by (simp add: verify_dual_def dual_response_valid vc_rail_def nft_rail_def)
  assume "mutated \<noteq> nft_amount nftData"
  with h show "case verify_dual V (N(tid \<mapsto> nftData\<lparr>nft_amount := mutated\<rparr>)) now
                 \<lparr>rq_vcURI = Some vcURI, rq_tokenId = Some tid, rq_requiredAsset = ra,
                  rq_minAmount = ma\<rparr> of
            Inr res \<Rightarrow> \<not> amountMatch (dr_crossValidation res) \<and> \<not> dr_valid res
          | Inl e \<Rightarrow> False"
    by (auto simp: verify_dual_def dual_response_valid dual_response_fields cross_validate_def
                   vc_rail_def nft_rail_def)
qed

text \<open>
  The witness runs the server's own mock data, loaded at time 0 and queried one second later:
  credential and token 42 agree on 50000.00 USDC, and a token amount of 60000.00 is refused.
\<close>

theorem verifyDual_valid_iff_cross_validated_witness:
  "(case verify_dual (mockVCRegistry (\<lambda>t. ''date'') 0) (mockNFTRegistry 0) 1000
          \<lparr>rq_vcURI = Some ''did:ethr:0x742d35Cc6634C0532925a3b8D93C7E8F476C4578/vc/pof-42'',
           rq_tokenId = Some ''42'', rq_requiredAsset = Some ''USDC'',
           rq_minAmount = Some (JString ''10000'' :: int js_amount)\<rparr> of
      Inr res \<Rightarrow> dr_valid res
    | Inl e \<Rightarrow> False) \<and>
   (case verify_dual (mockVCRegistry (\<lambda>t. ''date'') 0)
          ((mockNFTRegistry 0)(''42'' \<mapsto> (the (mockNFTRegistry 0 ''42''))\<lparr>nft_amount := ''60000.00''\<rparr>))
          1000
          \<lparr>rq_vcURI = Some ''did:ethr:0x742d35Cc6634C0532925a3b8D93C7E8F476C4578/vc/pof-42'',
           rq_tokenId = Some ''42'', rq_requiredAsset = Some ''USDC'',
           rq_minAmount = Some (JString ''10000'' :: int js_amount)\<rparr> of
      Inr res \<Rightarrow> \<not> amountMatch (dr_crossValidation res) \<and> \<not> dr_valid res
    | Inl e \<Rightarrow> False)"
  using verifyDual_valid_iff_cross_validated
          [where V = "mockVCRegistry (\<lambda>t. ''date'') 0" and N = "mockNFTRegistry 0" and now = 1000
             and vcURI = "''did:ethr:0x742d35Cc6634C0532925a3b8D93C7E8F476C4578/vc/pof-42''"
             and tid = "''42''"
             and vcData = "the (mockVCRegistry (\<lambda>t. ''date'') 0
                                  ''did:ethr:0x742d35Cc6634C0532925a3b8D93C7E8F476C4578/vc/pof-42'')"
             and nftData = "the (mockNFTRegistry 0 ''42'')"
             and mutated = "''60000.00''" and ra = "Some ''USDC''"
             and ma = "Some (JString ''10000'' :: int js_amount)", THEN conjunct2]
  by (simp add: mockVCRegistry_def mockNFTRegistry_def)

text \<open>
  C8. A dual-rail request in which the credential identifier or the token identifier is
  missing (absent from the body, or the empty string) is answered with HTTP 400 and the
  message that both are required; no rail is verified. The endpoint answers with a result
  only when both identifiers are supplied.
\<close>

theorem verifyDual_incomplete_is_400:
  "(\<not> truthy (rq_vcURI req) \<or> \<not> truthy (rq_tokenId req) \<longrightarrow>
      verify_dual V N now req
        = Inl (HttpError 400 ''Both vcURI and tokenId required for dual verification'')) \<and>
   ((\<exists>res. verify_dual V N now req = Inr res) = (truthy (rq_vcURI req) \<and> truthy (rq_tokenId req)))"
  by (auto simp: verify_dual_def truthy_def split: option.splits)

theorem verifyDual_incomplete_is_400_witness:
  "\<not> truthy (rq_tokenId \<lparr>rq_vcURI = Some ''did:ethr:0x742d35Cc6634C0532925a3b8D93C7E8F476C4578/vc/pof-42'',
                        rq_tokenId = None, rq_requiredAsset = None,
                        rq_minAmount = (None :: int js_amount option)\<rparr>) \<and>
   verify_dual (mockVCRegistry (\<lambda>t. ''date'') 0) (mockNFTRegistry 0) 1000
      \<lparr>rq_vcURI = Some ''did:ethr:0x742d35Cc6634C0532925a3b8D93C7E8F476C4578/vc/pof-42'',
       rq_tokenId = None, rq_requiredAsset = None, rq_minAmount = (None :: int js_amount option)\<rparr>
     = Inl (HttpError 400 ''Both vcURI and tokenId required for dual verification'')"
  using verifyDual_incomplete_is_400
          [where V = "mockVCRegistry (\<lambda>t. ''date'') 0" and N = "mockNFTRegistry 0" and now = 1000
             and req = "\<lparr>rq_vcURI = Some ''did:ethr:0x742d35Cc6634C0532925a3b8D93C7E8F476C4578/vc/pof-42'',
                          rq_tokenId = None, rq_requiredAsset = None,
                          rq_minAmount = (None :: int js_amount option)\<rparr>"]
  by (simp add: truthy_def)

section \<open>Properties of credential verification\<close>

lemma checkRevocationStatus_False: "checkRevocationStatus vc = False"
  by (simp add: checkRevocationStatus_def split: option.splits)

lemma verifyVC_outcome:
  "verifyVC E config dateParse now vcURI reqs =
     invalid_result (if startsWith vcURI ''ipfs://'' then ''Invalid signature''
                     else ''Unsupported credential URI scheme'')"
  by (simp add: verifyVC_def fetchCredentialFromURI_def verifyCredential_def verifyVCSignature_def
                caught_def Let_def)

text \<open>
  C3. The code does not do what the claim says. \<^verbatim>\<open>checkRevocationStatus\<close> answers false for
  every credential, with or without status pointer, and no registry is read; so
  \<^verbatim>\<open>verifyCredential\<close> never gives the reason \<^verbatim>\<open>Credential revoked\<close>. The credential issued
  for token 42 carries the status pointer \<^verbatim>\<open>0xRegistry#42\<close>, and whatever a revocation
  registry holds under that pointer, the credential verifies.
\<close>

theorem verifyCredential_never_revoked:
  "\<not> checkRevocationStatus vc \<and>
   error (verifyCredential E config dateParse now vc) \<noteq> Some ''Credential revoked'' \<and>
   (case issueProofOfFunds example_ethers example_config example_isoText 1000 1000
           ''did:ethr:0x742d'' example_pofData of
      Inr issued \<Rightarrow>
        vc_credentialStatus issued
          = Some \<lparr>status_id = ''0xRegistry#42'', status_type = ''EthereumAttestationServiceStatus''\<rparr> \<and>
        verified (verifyCredential example_ethers example_config example_dateParse 5000 issued)
    | Inl e \<Rightarrow> False)"
proof -
  have "case issueProofOfFunds example_ethers example_config example_isoText 1000 1000
           ''did:ethr:0x742d'' example_pofData of
      Inr issued \<Rightarrow>
        vc_credentialStatus issued
          = Some \<lparr>status_id = ''0xRegistry#42'', status_type = ''EthereumAttestationServiceStatus''\<rparr> \<and>
        verified (verifyCredential example_ethers example_config example_dateParse 5000 issued)
    | Inl e \<Rightarrow> False"
    by code_simp
  then show ?thesis
    by (simp add: verifyCredential_def checkRevocationStatus_False)
qed

text \<open>
  C4 as the specification states it fails: a credential whose expiration date is in the past
  and whose signature does not verify (here a proof value the signer never produced) is
  refused with the reason \<^verbatim>\<open>Invalid signature\<close>, not \<^verbatim>\<open>Credential expired\<close>.
\<close>

theorem expired_regardless_of_signature_counterexample:
  "verifyCredential example_ethers example_config example_dateParse 5000
     \<lparr>vc_context = Some (ContextArray [''https://www.w3.org/2018/credentials/v1'']),
      vc_type = Some [''VerifiableCredential'', ''ProofOfFundsCredential''],
      vc_issuer = Some (IssuerObject ''did:ethr:0x123'' ''UnyKorn Proof of Funds Service''),
      issuanceDate = Some ''1970-01-01T00:00:00.000Z'',
      expirationDate = Some ''1970-01-01T00:00:01.000Z'',
      vc_credentialSubject = None, vc_credentialStatus = None,
      proof_of = Some \<lparr>proof_type = ''EthereumEip712Signature2021'',
                         created = ''1970-01-01T00:00:00.000Z'',
                         verificationMethod = ''did:ethr:0x123#key-1'',
                         proofPurpose = ''assertionMethod'',
                         proofValue = Some ''forged''\<rparr>\<rparr>
   = \<lparr>verified = False, error = Some ''Invalid signature'', details = None\<rparr> \<and>
   example_dateParse ''1970-01-01T00:00:01.000Z'' = Some 1000 \<and> (1000 :: int) < 5000"
  by code_simp

text \<open>
  C4, amended. For every credential whose expiration date is in the past relative to the
  verification time, \<^verbatim>\<open>verifyCredential\<close> answers not verified; the reason is
  \<^verbatim>\<open>Credential expired\<close> when the signature is valid and \<^verbatim>\<open>Invalid signature\<close> when it is
  not, the signature being checked first.
\<close>

theorem expired_credential_not_verified:
  "expirationDate vc = Some d \<and> d \<noteq> [] \<and> dateParse d = Some t \<and> t < now \<longrightarrow>
     verifyCredential E config dateParse now vc =
       \<lparr>verified = False,
        error = Some (if verifyVCSignature E config vc then ''Credential expired''
                      else ''Invalid signature''),
        details = None\<rparr>"
  by (simp add: verifyCredential_def credentialExpired_def)

theorem expired_credential_not_verified_witness:
  "(case issueProofOfFunds example_ethers example_config example_isoText 1000 1000
           ''did:ethr:0x742d'' (example_pofData\<lparr>expiry := 2\<rparr>) of
      Inr issued \<Rightarrow>
        expirationDate issued = Some ''1970-01-01T00:00:02.000Z'' \<and>
        example_dateParse ''1970-01-01T00:00:02.000Z'' = Some 2000 \<and> (2000 :: int) < 5000 \<and>
        verifyCredential example_ethers example_config example_dateParse 5000 issued
          = \<lparr>verified = False, error = Some ''Credential expired'', details = None\<rparr>
    | Inl e \<Rightarrow> False)"
proof -
  obtain issued where issued:
    "issueProofOfFunds example_ethers example_config example_isoText 1000 1000
       ''did:ethr:0x742d'' (example_pofData\<lparr>expiry := 2\<rparr>) = Inr issued"
    "expirationDate issued = Some ''1970-01-01T00:00:02.000Z''"
    "verifyVCSignature example_ethers example_config issued"
  proof -
    have "case issueProofOfFunds example_ethers example_config example_isoText 1000 1000
                ''did:ethr:0x742d'' (example_pofData\<lparr>expiry := 2\<rparr>) of
            Inr issued \<Rightarrow> expirationDate issued = Some ''1970-01-01T00:00:02.000Z'' \<and>
                          verifyVCSignature example_ethers example_config issued
          | Inl e \<Rightarrow> False"
      by code_simp
    then show ?thesis
      using that by (auto split: sum.splits)
  qed
  have parse: "example_dateParse ''1970-01-01T00:00:02.000Z'' = Some 2000"
    by (simp add: example_dateParse_def)
  show ?thesis
    using expired_credential_not_verified
            [of issued "''1970-01-01T00:00:02.000Z''" example_dateParse 2000 5000
                example_ethers example_config]
          issued parse
    by simp
qed

section \<open>Properties of the verification endpoint\<close>

text \<open>
  C10. For a request to \<^verbatim>\<open>POST /api/verify\<close> that supplies a \<open>vcURI\<close> (a non-empty string, the
  handler's own test of "provided"), the answer is that of the credential rail alone: it is
  the same for every \<open>tokenId\<close> in the body, every content of the token store and every
  behaviour of the functions only the token rail calls, so the token is neither looked up
  nor cross-checked. The token rail answers only when \<open>vcURI\<close> is not supplied and
  \<open>tokenId\<close> is.
\<close>

theorem verify_credential_rail_ignores_token:
  "(truthy (req_vcURI req) \<longrightarrow>
      api_verify E config dateParse pf isoText store now req
        = Inr (verifyVC E config dateParse now (case req_vcURI req of Some u \<Rightarrow> u | None \<Rightarrow> [])
                 \<lparr>requiredAsset = req_requiredAsset req, minAmount = req_minAmount req\<rparr>) \<and>
      api_verify E config dateParse pf' isoText' store' now (req\<lparr>req_tokenId := t'\<rparr>)
        = api_verify E config dateParse pf isoText store now req) \<and>
   (\<not> truthy (req_vcURI req) \<and> truthy (req_tokenId req) \<longrightarrow>
      api_verify E config dateParse pf isoText store now req
        = Inr (verifyPOFToken pf isoText store now (case req_tokenId req of Some t \<Rightarrow> t | None \<Rightarrow> [])
                 \<lparr>requiredAsset = req_requiredAsset req, minAmount = req_minAmount req\<rparr>))"
  by (auto simp: api_verify_def truthy_def Let_def split: option.splits)

text \<open>
  The witness: token 42 is in the store and verifies on its own, and a request naming both
  it and a credential URI gets the credential rail's answer.
\<close>

theorem verify_credential_rail_ignores_token_witness:
  "truthy (req_vcURI \<lparr>req_vcURI = Some ''ipfs://QmCredential'', req_tokenId = Some ''42'',
                       req_requiredAsset = None, req_minAmount = (None :: int js_amount option)\<rparr>) \<and>
   api_verify example_ethers example_config example_dateParse example_numbers example_isoText
       [''42'' \<mapsto> example_pofData] 1000
       \<lparr>req_vcURI = Some ''ipfs://QmCredential'', req_tokenId = Some ''42'',
        req_requiredAsset = None, req_minAmount = (None :: int js_amount option)\<rparr>
     = Inr (invalid_result ''Invalid signature'') \<and>
   api_verify example_ethers example_config example_dateParse example_numbers example_isoText
       Map.empty 1000
       \<lparr>req_vcURI = Some ''ipfs://QmCredential'', req_tokenId = None,
        req_requiredAsset = None, req_minAmount = (None :: int js_amount option)\<rparr>
     = Inr (invalid_result ''Invalid signature'') \<and>
   ar_valid (verifyPOFToken example_numbers example_isoText [''42'' \<mapsto> example_pofData] 1000 ''42''
               \<lparr>requiredAsset = None, minAmount = (None :: int js_amount option)\<rparr>)"
proof -
  let ?req = "\<lparr>req_vcURI = Some ''ipfs://QmCredential'', req_tokenId = Some ''42'',
                req_requiredAsset = None, req_minAmount = (None :: int js_amount option)\<rparr>"
  have supplied: "truthy (req_vcURI ?req)"
    by (simp add: truthy_def)
  have token_alone:
    "ar_valid (verifyPOFToken example_numbers example_isoText [''42'' \<mapsto> example_pofData] 1000 ''42''
                 \<lparr>requiredAsset = None, minAmount = (None :: int js_amount option)\<rparr>)"
    by (simp add: verifyPOFToken_def assetMeets_def amountMeets_def toISOString_def
                  example_pofData_def)
  from verify_credential_rail_ignores_token
         [where req = ?req and E = example_ethers and config = example_config
            and dateParse = example_dateParse and pf = example_numbers and isoText = example_isoText
            and store = "[''42'' \<mapsto> example_pofData]" and now = 1000
            and pf' = example_numbers and isoText' = example_isoText and store' = Map.empty
            and t' = None, THEN conjunct1, rule_format, OF supplied]
  show ?thesis
    using supplied token_alone by (simp add: verifyVC_outcome)
qed

section \<open>Properties of the token rail\<close>

lemma vr_valid_check_required:
  "vr_valid (check_required N req cur amt res) =
     (vr_valid res \<and>
      (case rq_requiredAsset req of None \<Rightarrow> True | Some ra \<Rightarrow> ra = [] \<or> cur = ra) \<and>
      (case rq_minAmount req of
         None \<Rightarrow> True
       | Some ma \<Rightarrow> \<not> (amount_truthy ma \<and>
                         js_lt (parseFloat N amt) (parseFloat N (amount_string (numberToString N) ma)))))"
  by (auto simp: check_required_def Let_def split: option.splits)


lemma verifyPOFToken_valid_any_time:
  "ar_valid (verifyPOFToken M isoText store now tid reqs) =
     ar_valid (verifyPOFToken M isoText store now' tid reqs)"
  by (simp add: verifyPOFToken_def invalid_result_def caught_def Let_def split: option.splits)

lemma demo_verify_nft_valid_any_flags:
  "map_sum id vr_valid
     (demo_verify_nft N isoText (R(tid \<mapsto> (n\<lparr>nft_kycCompliant := k, nft_sanctionsCleared := c\<rparr>))) now req tid)
   = map_sum id vr_valid (demo_verify_nft N isoText (R(tid \<mapsto> n)) now req tid)"
  by (simp add: demo_verify_nft_def vr_valid_check_required split: option.splits)

text \<open>
  C2. The code does not do what the claim says, on either token rail. In the API,
  \<^verbatim>\<open>verifyPOFToken\<close> never compares the expiry with the clock, so its \<open>valid\<close> flag is the same
  at every verification time: token 42 with expiry 1970-01-01T00:00:01Z, verified four
  seconds later against the requirements it meets, is reported valid, with the elapsed
  expiry printed in \<open>expiresAt\<close>. In the demo server the token branch never reads the two
  compliance flags, so the flag is the same whatever they are: token 42 of the mock registry
  with \<open>kycCompliant\<close> and \<open>sanctionsCleared\<close> both false is reported valid.
\<close>

theorem token_rail_valid_despite_expiry_or_flags:
  "ar_valid (verifyPOFToken example_numbers example_isoText
               [''42'' \<mapsto> example_pofData\<lparr>expiry := 1\<rparr>] 5000 ''42''
               \<lparr>requiredAsset = Some ''USDC'', minAmount = Some (JNumber 10000)\<rparr>) \<and>
   ar_expiresAt (verifyPOFToken example_numbers example_isoText
               [''42'' \<mapsto> example_pofData\<lparr>expiry := 1\<rparr>] 5000 ''42''
               \<lparr>requiredAsset = Some ''USDC'', minAmount = Some (JNumber 10000)\<rparr>)
     = Some ''1970-01-01T00:00:01.000Z'' \<and>
   (case demo_verify example_numbers example_isoText (mockVCRegistry example_isoText 0)
           ((mockNFTRegistry 0)(''42'' \<mapsto>
              ((the (mockNFTRegistry 0 ''42''))\<lparr>nft_kycCompliant := False,
                                                nft_sanctionsCleared := False\<rparr>)))
           1000
           \<lparr>rq_vcURI = None, rq_tokenId = Some ''42'', rq_requiredAsset = Some ''USDC'',
            rq_minAmount = Some (JString ''10000'')\<rparr> of
      Inr res \<Rightarrow> vr_valid res
    | Inl e \<Rightarrow> False) \<and>
   ar_valid (verifyPOFToken M isoText store now tid reqs)
     = ar_valid (verifyPOFToken M isoText store now' tid reqs) \<and>
   map_sum id vr_valid
     (demo_verify_nft N isoText (R(tid \<mapsto> (n\<lparr>nft_kycCompliant := k, nft_sanctionsCleared := c\<rparr>))) now req tid)
     = map_sum id vr_valid (demo_verify_nft N isoText (R(tid \<mapsto> n)) now req tid)"
proof -
  have api:
    "ar_valid (verifyPOFToken example_numbers example_isoText
               [''42'' \<mapsto> example_pofData\<lparr>expiry := 1\<rparr>] 5000 ''42''
               \<lparr>requiredAsset = Some ''USDC'', minAmount = Some (JNumber 10000)\<rparr>) \<and>
     ar_expiresAt (verifyPOFToken example_numbers example_isoText
               [''42'' \<mapsto> example_pofData\<lparr>expiry := 1\<rparr>] 5000 ''42''
               \<lparr>requiredAsset = Some ''USDC'', minAmount = Some (JNumber 10000)\<rparr>)
       = Some ''1970-01-01T00:00:01.000Z''"
    by code_simp
  have demo:
    "case demo_verify example_numbers example_isoText (mockVCRegistry example_isoText 0)
           ((mockNFTRegistry 0)(''42'' \<mapsto>
              ((the (mockNFTRegistry 0 ''42''))\<lparr>nft_kycCompliant := False,
                                                nft_sanctionsCleared := False\<rparr>)))
           1000
           \<lparr>rq_vcURI = None, rq_tokenId = Some ''42'', rq_requiredAsset = Some ''USDC'',
            rq_minAmount = Some (JString ''10000'')\<rparr> of
      Inr res \<Rightarrow> vr_valid res
    | Inl e \<Rightarrow> False"
    by code_simp
  show ?thesis
    using api demo verifyPOFToken_valid_any_time [of M isoText store now tid reqs now']
    by (simp add: demo_verify_nft_valid_any_flags)
qed




section \<open>Properties of issuance\<close>

lemma issueProofOfFunds_Inr:
  assumes "issueProofOfFunds E config isoText now signedAt holderDID pofData = Inr vc"
  shows "\<exists>cid v sg.
           getNetwork E = Inr cid \<and>
           typed_value_of vc = Some v \<and>
           signTypedData E (signingKey config) (vc_domain config cid) v = Inr sg \<and>
           vc = (pof_document config (isoText now) (isoText (expiry pofData * 1000)) holderDID pofData)
                  \<lparr>proof_of := Some \<lparr>proof_type = ''EthereumEip712Signature2021'',
                                     created = isoText signedAt,
                                     verificationMethod = issuerDID config @ ''#key-1'',
                                     proofPurpose = ''assertionMethod'',
                                     proofValue = Some sg\<rparr>\<rparr>"
  using assms
  by (auto simp: issueProofOfFunds_def signVC_def toISOString_def typed_value_of_def
                 pof_document_def
           split: option.splits sum.splits if_splits)

lemma verifyCredential_issued:
  assumes iss: "issueProofOfFunds E config isoText now signedAt holderDID pofData = Inr vc"
    and sig: "\<forall>d v sg. signTypedData E (signingKey config) d v = Inr sg \<longrightarrow>
                sg \<noteq> [] \<and> (\<exists>a. verifyTypedData E d v sg = Inr a \<and>
                   toLowerCase a = toLowerCase (walletAddress E (signingKey config)))"
    and live: "\<not> credentialExpired dateParse t vc"
  shows "verified (verifyCredential E config dateParse t vc)"
proof -
  from issueProofOfFunds_Inr [OF iss] obtain cid v sg where
    net: "getNetwork E = Inr cid" and tv: "typed_value_of vc = Some v"
    and sg: "signTypedData E (signingKey config) (vc_domain config cid) v = Inr sg"
    and pr: "\<exists>p. proof_of vc = Some p \<and> proofValue p = Some sg"
    by auto
  from sig sg obtain a where "sg \<noteq> []" "verifyTypedData E (vc_domain config cid) v sg = Inr a"
    "toLowerCase a = toLowerCase (walletAddress E (signingKey config))"
    by blast
  with net tv pr have "verifyVCSignature E config vc"
    by (auto simp: verifyVCSignature_def)
  with live show ?thesis
    by (simp add: verifyCredential_def checkRevocationStatus_False)
qed

text \<open>
  C6 as the specification states it fails: the same record issued with the same key at
  1970-01-01T00:00:01Z and one second later gives two documents whose \<open>credentialSubject\<close>
  payloads differ (and whose issuance dates differ).
\<close>

theorem issue_twice_same_subject_counterexample:
  "(case (issueProofOfFunds example_ethers example_config example_isoText 1000 1000
            ''did:ethr:0x742d'' example_pofData,
          issueProofOfFunds example_ethers example_config example_isoText 2000 2000
            ''did:ethr:0x742d'' example_pofData) of
      (Inr vc1, Inr vc2) \<Rightarrow>
        vc_credentialSubject vc1 \<noteq> vc_credentialSubject vc2 \<and>
        issuanceDate vc1 \<noteq> issuanceDate vc2
    | _ \<Rightarrow> False)"
  by code_simp

text \<open>
  C6, amended. For fixed input data and signing key, two successful issuances give documents
  that differ only in \<open>issuanceDate\<close>, in \<open>credentialSubject.compliance.verifiedAt\<close> (the
  issuance time is written into the subject payload) and in the proof's \<open>created\<close> and
  signature; everything else in \<open>credentialSubject\<close> and in the document is identical.
  Verifying either document succeeds, provided the signature primitive recovers the signer's
  address from what it signed and the document has not expired at verification time.
\<close>

theorem issue_twice_differs_only_in_time_and_proof:
  "issueProofOfFunds E config isoText now1 signed1 holderDID pofData = Inr vc1 \<and>
   issueProofOfFunds E config isoText now2 signed2 holderDID pofData = Inr vc2 \<longrightarrow>
     vc_context vc2 = vc_context vc1 \<and> vc_type vc2 = vc_type vc1 \<and>
     vc_issuer vc2 = vc_issuer vc1 \<and> expirationDate vc2 = expirationDate vc1 \<and>
     vc_credentialStatus vc2 = vc_credentialStatus vc1 \<and>
     issuanceDate vc1 = Some (isoText now1) \<and> issuanceDate vc2 = Some (isoText now2) \<and>
     vc_credentialSubject vc1 = Some (pof_credentialSubject (isoText now1) holderDID pofData) \<and>
     vc_credentialSubject vc2 =
       map_option
         (\<lambda>s. s\<lparr>cs_compliance := map_option (\<lambda>c. c\<lparr>verifiedAt := isoText now2\<rparr>) (cs_compliance s)\<rparr>)
         (vc_credentialSubject vc1) \<and>
     map_option (\<lambda>p. (proof_type p, verificationMethod p, proofPurpose p)) (proof_of vc2)
       = map_option (\<lambda>p. (proof_type p, verificationMethod p, proofPurpose p)) (proof_of vc1) \<and>
     ((\<forall>d v sg. signTypedData E (signingKey config) d v = Inr sg \<longrightarrow>
          sg \<noteq> [] \<and> (\<exists>a. verifyTypedData E d v sg = Inr a \<and>
             toLowerCase a = toLowerCase (walletAddress E (signingKey config)))) \<and>
      \<not> credentialExpired dateParse t1 vc1 \<and> \<not> credentialExpired dateParse t2 vc2 \<longrightarrow>
        verified (verifyCredential E config dateParse t1 vc1) \<and>
        verified (verifyCredential E config dateParse t2 vc2))"
proof (intro impI, elim conjE)
  assume i1: "issueProofOfFunds E config isoText now1 signed1 holderDID pofData = Inr vc1"
    and i2: "issueProofOfFunds E config isoText now2 signed2 holderDID pofData = Inr vc2"
  from issueProofOfFunds_Inr [OF i1] obtain p1 where
    vc1: "vc1 = (pof_document config (isoText now1) (isoText (expiry pofData * 1000)) holderDID pofData)
                  \<lparr>proof_of := Some p1\<rparr>"
    and p1: "proof_type p1 = ''EthereumEip712Signature2021''"
      "verificationMethod p1 = issuerDID config @ ''#key-1''" "proofPurpose p1 = ''assertionMethod''"
    by auto
  from issueProofOfFunds_Inr [OF i2] obtain p2 where
    vc2: "vc2 = (pof_document config (isoText now2) (isoText (expiry pofData * 1000)) holderDID pofData)
                  \<lparr>proof_of := Some p2\<rparr>"
    and p2: "proof_type p2 = ''EthereumEip712Signature2021''"
      "verificationMethod p2 = issuerDID config @ ''#key-1''" "proofPurpose p2 = ''assertionMethod''"
    by auto
  have same: "vc_context vc2 = vc_context vc1 \<and> vc_type vc2 = vc_type vc1 \<and>
     vc_issuer vc2 = vc_issuer vc1 \<and> expirationDate vc2 = expirationDate vc1 \<and>
     vc_credentialStatus vc2 = vc_credentialStatus vc1 \<and>
     issuanceDate vc1 = Some (isoText now1) \<and> issuanceDate vc2 = Some (isoText now2)"
    by (simp add: vc1 vc2 pof_document_def)
  have subject: "vc_credentialSubject vc1 = Some (pof_credentialSubject (isoText now1) holderDID pofData) \<and>
     vc_credentialSubject vc2 =
       map_option
         (\<lambda>s. s\<lparr>cs_compliance := map_option (\<lambda>c. c\<lparr>verifiedAt := isoText now2\<rparr>) (cs_compliance s)\<rparr>)
         (vc_credentialSubject vc1)"
    by (simp add: vc1 vc2 pof_document_def pof_credentialSubject_def)
  have proofs: "map_option (\<lambda>p. (proof_type p, verificationMethod p, proofPurpose p)) (proof_of vc2)
       = map_option (\<lambda>p. (proof_type p, verificationMethod p, proofPurpose p)) (proof_of vc1)"
    by (simp add: vc1 vc2 p1 p2)
  have verify: "(\<forall>d v sg. signTypedData E (signingKey config) d v = Inr sg \<longrightarrow>
          sg \<noteq> [] \<and> (\<exists>a. verifyTypedData E d v sg = Inr a \<and>
             toLowerCase a = toLowerCase (walletAddress E (signingKey config)))) \<and>
      \<not> credentialExpired dateParse t1 vc1 \<and> \<not> credentialExpired dateParse t2 vc2 \<longrightarrow>
        verified (verifyCredential E config dateParse t1 vc1) \<and>
        verified (verifyCredential E config dateParse t2 vc2)"
    using verifyCredential_issued [OF i1] verifyCredential_issued [OF i2] by blast
  from same subject proofs verify
  show "vc_context vc2 = vc_context vc1 \<and> vc_type vc2 = vc_type vc1 \<and>
     vc_issuer vc2 = vc_issuer vc1 \<and> expirationDate vc2 = expirationDate vc1 \<and>
     vc_credentialStatus vc2 = vc_credentialStatus vc1 \<and>
     issuanceDate vc1 = Some (isoText now1) \<and> issuanceDate vc2 = Some (isoText now2) \<and>
     vc_credentialSubject vc1 = Some (pof_credentialSubject (isoText now1) holderDID pofData) \<and>
     vc_credentialSubject vc2 =
       map_option
         (\<lambda>s. s\<lparr>cs_compliance := map_option (\<lambda>c. c\<lparr>verifiedAt := isoText now2\<rparr>) (cs_compliance s)\<rparr>)
         (vc_credentialSubject vc1) \<and>
     map_option (\<lambda>p. (proof_type p, verificationMethod p, proofPurpose p)) (proof_of vc2)
       = map_option (\<lambda>p. (proof_type p, verificationMethod p, proofPurpose p)) (proof_of vc1) \<and>
     ((\<forall>d v sg. signTypedData E (signingKey config) d v = Inr sg \<longrightarrow>
          sg \<noteq> [] \<and> (\<exists>a. verifyTypedData E d v sg = Inr a \<and>
             toLowerCase a = toLowerCase (walletAddress E (signingKey config)))) \<and>
      \<not> credentialExpired dateParse t1 vc1 \<and> \<not> credentialExpired dateParse t2 vc2 \<longrightarrow>
        verified (verifyCredential E config dateParse t1 vc1) \<and>
        verified (verifyCredential E config dateParse t2 vc2))"
    by blast
qed

text \<open>
  The witness issues the record of token 42 twice, one second apart, in the example
  environment, and verifies both documents five seconds after the epoch.
\<close>

theorem issue_twice_differs_only_in_time_and_proof_witness:
  "(case (issueProofOfFunds example_ethers example_config example_isoText 1000 1000
            ''did:ethr:0x742d'' example_pofData,
          issueProofOfFunds example_ethers example_config example_isoText 2000 2000
            ''did:ethr:0x742d'' example_pofData) of
      (Inr vc1, Inr vc2) \<Rightarrow>
        vc_credentialSubject vc2 =
          map_option
            (\<lambda>s. s\<lparr>cs_compliance :=
                    map_option (\<lambda>c. c\<lparr>verifiedAt := ''1970-01-01T00:00:02.000Z''\<rparr>) (cs_compliance s)\<rparr>)
            (vc_credentialSubject vc1) \<and>
        expirationDate vc2 = expirationDate vc1 \<and>
        verified (verifyCredential example_ethers example_config example_dateParse 5000 vc1) \<and>
        verified (verifyCredential example_ethers example_config example_dateParse 5000 vc2)
    | _ \<Rightarrow> False)"
proof -
  obtain vc1 where vc1:
    "issueProofOfFunds example_ethers example_config example_isoText 1000 1000
       ''did:ethr:0x742d'' example_pofData = Inr vc1"
    "\<not> credentialExpired example_dateParse 5000 vc1"
  proof -
    have "case issueProofOfFunds example_ethers example_config example_isoText 1000 1000
                 ''did:ethr:0x742d'' example_pofData of
            Inr vc \<Rightarrow> \<not> credentialExpired example_dateParse 5000 vc
          | Inl e \<Rightarrow> False"
      by code_simp
    then show ?thesis
      using that by (auto split: sum.splits)
  qed
  obtain vc2 where vc2:
    "issueProofOfFunds example_ethers example_config example_isoText 2000 2000
       ''did:ethr:0x742d'' example_pofData = Inr vc2"
    "\<not> credentialExpired example_dateParse 5000 vc2"
  proof -
    have "case issueProofOfFunds example_ethers example_config example_isoText 2000 2000
                 ''did:ethr:0x742d'' example_pofData of
            Inr vc \<Rightarrow> \<not> credentialExpired example_dateParse 5000 vc
          | Inl e \<Rightarrow> False"
      by code_simp
    then show ?thesis
      using that by (auto split: sum.splits)
  qed
  have lower: "toLowerCase ''0xABC1'' = toLowerCase ''0xabc1''"
    by code_simp
  have recovers:
    "\<forall>d v sg. signTypedData example_ethers (signingKey example_config) d v = Inr sg \<longrightarrow>
       sg \<noteq> [] \<and> (\<exists>a. verifyTypedData example_ethers d v sg = Inr a \<and>
          toLowerCase a = toLowerCase (walletAddress example_ethers (signingKey example_config)))"
    by (auto simp: example_ethers_def example_config_def lower)
  have text2: "example_isoText 2000 = ''1970-01-01T00:00:02.000Z''"
    by (simp add: example_isoText_def)
  from issue_twice_differs_only_in_time_and_proof
         [of example_ethers example_config example_isoText 1000 1000 "''did:ethr:0x742d''"
             example_pofData vc1 2000 2000 vc2 example_dateParse 5000 5000]
       vc1 vc2 recovers
  show ?thesis
    by (simp add: text2)
qed

end
